theory Spec2Isabelle
  imports Complex_Main "HOL-Library.Sublist" "HOL-Library.Monad_Syntax"
begin

section \<open>The movie application: catalog access and the favorites collection\<close>

text \<open>
  The development embeds the behavioural core of \<^verbatim>\<open>index.tsx\<close>: the two catalog fetch
  wrappers \<^verbatim>\<open>fetchMovies\<close> and \<^verbatim>\<open>fetchMovieRecommendations\<close>, the search handler
  \<^verbatim>\<open>handleSearch\<close>, and the favorites provider with \<^verbatim>\<open>saveFavorites\<close>,
  \<^verbatim>\<open>loadFavorites\<close>, \<^verbatim>\<open>addFavorite\<close>, \<^verbatim>\<open>removeFavorite\<close> and \<^verbatim>\<open>isFavorite\<close>.

  What the source takes from its platform is a parameter of the model: the outcome of
  \<^verbatim>\<open>axios.get\<close> for a URL, and the two functions \<^verbatim>\<open>JSON.stringify\<close> and
  \<^verbatim>\<open>JSON.parse\<close>. The device the program runs on (the contents of \<^verbatim>\<open>AsyncStorage\<close>,
  whether its operations fail, and the developer console) is an explicit state that every
  operation receives and returns.
\<close>

subsection \<open>Data\<close>

text \<open>
  A score of the catalog (\<^verbatim>\<open>vote_average\<close>, \<^verbatim>\<open>popularity\<close>) is a decimal number: an
  integer \<open>m\<close> and a count \<open>k\<close> of digits after the point stand for \<open>m / 10\<^sup>k\<close>. The
  type holds each number once, with no zero at the end of its fraction, so that equality of
  scores is equality of numbers. \<open>decimal 85 1\<close> is \<open>8.5\<close>. The values \<^verbatim>\<open>NaN\<close> and
  \<^verbatim>\<open>Infinity\<close>, which no JSON answer of the catalog can hold, are not in the type.
\<close>

typedef number = "{(m :: int, k :: nat). k = 0 \<or> \<not> 10 dvd m}"
  by (rule exI [of _ "(0, 0)"]) simp

fun strip_zeros :: "int \<Rightarrow> nat \<Rightarrow> int \<times> nat" where
  "strip_zeros m 0 = (m, 0)"
| "strip_zeros m (Suc k) = (if 10 dvd m then strip_zeros (m div 10) k else (m, Suc k))"

definition decimal :: "int \<Rightarrow> nat \<Rightarrow> number" where
  "decimal m k = Abs_number (strip_zeros m k)"

text \<open>
  The interface \<^verbatim>\<open>Movie\<close>. The field \<^verbatim>\<open>id\<close> is written \<open>id'\<close>, since \<open>id\<close> is the
  identity function of HOL. The catalog's identifiers and vote counts are integers; the two
  scores are only stored and handed on by the code modelled here, never computed with.
\<close>

record Movie =
  id' :: int
  title :: string
  overview :: string
  poster_path :: string
  backdrop_path :: string
  vote_average :: number
  popularity :: number
  original_language :: string
  release_date :: string
  vote_count :: int

text \<open>
  Everything a \<^verbatim>\<open>catch (error)\<close> of the source can receive: a rejected request, a
  property read on \<^verbatim>\<open>null\<close> or \<^verbatim>\<open>undefined\<close>, a text that is not JSON, a failed
  storage operation.
\<close>

datatype error = AxiosError | TypeError | SyntaxError | StorageError

text \<open>The promise an awaited call settles to.\<close>

datatype 'a promise = Fulfilled 'a | Rejected error

text \<open>
  A value of TypeScript's type \<^verbatim>\<open>any\<close>, as far as the program distinguishes such values:
  \<^verbatim>\<open>undefined\<close>, an array of movie objects, or any other value (kept as its JSON text).
  \<^verbatim>\<open>response.data.results\<close> and \<^verbatim>\<open>JSON.parse(jsonValue)\<close> are of that type; the source
  passes them on without inspecting them.
\<close>

datatype js_any = Undefined | Movies "Movie list" | Other string

text \<open>
  \<^verbatim>\<open>response.data\<close>: either \<^verbatim>\<open>null\<close>/\<^verbatim>\<open>undefined\<close>, on which reading a property
  throws a \<^verbatim>\<open>TypeError\<close>, or a value whose property \<^verbatim>\<open>results\<close> reads as the given
  \<open>js_any\<close> (\<open>Undefined\<close> when the value has no such property).
\<close>

datatype body = NoBody | Body js_any

record response =
  data :: body

text \<open>The platform: \<^verbatim>\<open>axios.get\<close>, \<^verbatim>\<open>JSON.stringify\<close> and \<^verbatim>\<open>JSON.parse\<close>.\<close>

record platform =
  axios_get :: "string \<Rightarrow> response promise"
  JSON_stringify :: "Movie list \<Rightarrow> string"
  JSON_parse :: "string \<Rightarrow> error + js_any"

text \<open>
  The device: the key-value slots of \<^verbatim>\<open>AsyncStorage\<close>, the error with which
  \<^verbatim>\<open>setItem\<close> and \<^verbatim>\<open>getItem\<close> reject (if they do), and the lines written with
  \<^verbatim>\<open>console.error\<close>.
\<close>

record device =
  items :: "string \<rightharpoonup> string"
  setItem_error :: "error option"
  getItem_error :: "error option"
  console :: "(string \<times> error) list"

definition console_error :: "string \<Rightarrow> error \<Rightarrow> device \<Rightarrow> device" where
  "console_error msg e d = d\<lparr>console := console d @ [(msg, e)]\<rparr>"

definition AsyncStorage_setItem :: "string \<Rightarrow> string \<Rightarrow> device \<Rightarrow> error + device" where
  "AsyncStorage_setItem key v d =
     (case setItem_error d of
        Some e \<Rightarrow> Inl e
      | None \<Rightarrow> Inr (d\<lparr>items := (items d)(key \<mapsto> v)\<rparr>))"

definition AsyncStorage_getItem :: "string \<Rightarrow> device \<Rightarrow> error + string option" where
  "AsyncStorage_getItem key d =
     (case getItem_error d of
        Some e \<Rightarrow> Inl e
      | None \<Rightarrow> Inr (items d key))"

subsection \<open>Catalog access\<close>

definition API_KEY :: string where
  "API_KEY = ''f5817ca812a95ce0e0ab07166bfc9fe5''"

definition BASE_URL :: string where
  "BASE_URL = ''https://api.themoviedb.org/3/movie''"

definition SEARCH_URL :: string where
  "SEARCH_URL = ''https://api.themoviedb.org/3/search/movie''"

text \<open>
  A number inside a template literal is printed in decimal. The model prints integers as
  JavaScript prints the integers below \<open>10\<^sup>2\<^sup>1\<close>, which covers every catalog identifier.
\<close>

definition digit_char :: "nat \<Rightarrow> char" where
  "digit_char n = ''0123456789'' ! n"

function toString_nat :: "nat \<Rightarrow> string" where
  "toString_nat n =
     (if n < 10 then [digit_char n]
      else toString_nat (n div 10) @ [digit_char (n mod 10)])"
  by pat_completeness auto
termination
  by (relation "measure (\<lambda>n. n)") auto

declare toString_nat.simps [simp del]

definition Number_toString :: "int \<Rightarrow> string" where
  "Number_toString i =
     (if i < 0 then ''-'' @ toString_nat (nat (- i)) else toString_nat (nat i))"

text \<open>\<^verbatim>\<open>response.data.results\<close>.\<close>

definition results_of :: "response \<Rightarrow> error + js_any" where
  "results_of r = (case data r of NoBody \<Rightarrow> Inl TypeError | Body v \<Rightarrow> Inr v)"

text \<open>
  The \<^verbatim>\<open>try\<close> block shared by the three catalog operations: await the request, then read
  \<^verbatim>\<open>response.data.results\<close>. \<open>Inl\<close> is an exception on its way to the \<^verbatim>\<open>catch\<close>.
\<close>

definition get_results :: "platform \<Rightarrow> string \<Rightarrow> error + js_any" where
  "get_results P url =
     (case axios_get P url of
        Rejected e \<Rightarrow> Inl e
      | Fulfilled r \<Rightarrow> results_of r)"

definition fetchMovies_url :: "string \<Rightarrow> string" where
  "fetchMovies_url endpoint =
     BASE_URL @ ''/'' @ endpoint @ ''?api_key='' @ API_KEY @ ''&language=en-US&page=1''"

definition fetchMovies :: "platform \<Rightarrow> string \<Rightarrow> device \<Rightarrow> js_any promise \<times> device" where
  "fetchMovies P endpoint d =
     (case get_results P (fetchMovies_url endpoint) of
        Inr v \<Rightarrow> (Fulfilled v, d)
      | Inl e \<Rightarrow> (Fulfilled (Movies []), console_error ''Error fetching movies:'' e d))"

definition fetchMovieRecommendations_url :: "int \<Rightarrow> string" where
  "fetchMovieRecommendations_url movieId =
     BASE_URL @ ''/'' @ Number_toString movieId @ ''/recommendations?api_key='' @ API_KEY
       @ ''&language=en-US&page=1''"

definition fetchMovieRecommendations ::
  "platform \<Rightarrow> int \<Rightarrow> device \<Rightarrow> js_any promise \<times> device" where
  "fetchMovieRecommendations P movieId d =
     (case get_results P (fetchMovieRecommendations_url movieId) of
        Inr v \<Rightarrow> (Fulfilled v, d)
      | Inl e \<Rightarrow> (Fulfilled (Movies []), console_error ''Error fetching recommendations:'' e d))"

text \<open>
  The search screen holds the query typed so far and the results shown. \<^verbatim>\<open>handleSearch\<close>
  returns nothing; what it hands to the screen is the state \<^verbatim>\<open>results\<close>, which it sets
  only inside the \<^verbatim>\<open>try\<close> block.
\<close>

record SearchScreen =
  query :: string
  results :: js_any

definition SearchScreen_initial :: SearchScreen where
  "SearchScreen_initial = \<lparr>query = '''', results = Movies []\<rparr>"

definition handleSearch_url :: "string \<Rightarrow> string" where
  "handleSearch_url q = SEARCH_URL @ ''?api_key='' @ API_KEY @ ''&query='' @ q"

definition handleSearch ::
  "platform \<Rightarrow> SearchScreen \<Rightarrow> device \<Rightarrow> unit promise \<times> SearchScreen \<times> device" where
  "handleSearch P s d =
     (case get_results P (handleSearch_url (query s)) of
        Inr v \<Rightarrow> (Fulfilled (), s\<lparr>results := v\<rparr>, d)
      | Inl e \<Rightarrow> (Fulfilled (), s, console_error ''Error searching movies:'' e d))"

subsection \<open>The favorites store\<close>

text \<open>
  \<^verbatim>\<open>saveFavorites\<close> serialises the whole list and writes it to the slot
  \<^verbatim>\<open>@favorites\<close>; a rejected write is caught and logged, and the slot keeps its old
  content. \<^verbatim>\<open>JSON.stringify\<close> of an array of movie objects returns a text and does not
  raise.
\<close>

definition saveFavorites :: "platform \<Rightarrow> Movie list \<Rightarrow> device \<Rightarrow> unit promise \<times> device" where
  "saveFavorites P favs d =
     (let jsonValue = JSON_stringify P favs in
      case AsyncStorage_setItem ''@favorites'' jsonValue d of
        Inr d' \<Rightarrow> (Fulfilled (), d')
      | Inl e \<Rightarrow> (Fulfilled (), console_error ''Error saving favorites:'' e d))"

text \<open>
  The \<^verbatim>\<open>try\<close> block of \<^verbatim>\<open>loadFavorites\<close>. The test \<^verbatim>\<open>jsonValue ? \<dots> : []\<close> takes the
  second branch for \<^verbatim>\<open>null\<close> (no slot) and for the empty string.
\<close>

definition loadFavorites_try :: "platform \<Rightarrow> device \<Rightarrow> error + js_any" where
  "loadFavorites_try P d =
     (case AsyncStorage_getItem ''@favorites'' d of
        Inl e \<Rightarrow> Inl e
      | Inr None \<Rightarrow> Inr (Movies [])
      | Inr (Some jsonValue) \<Rightarrow>
          if jsonValue = '''' then Inr (Movies []) else JSON_parse P jsonValue)"

definition loadFavorites :: "platform \<Rightarrow> device \<Rightarrow> js_any promise \<times> device" where
  "loadFavorites P d =
     (case loadFavorites_try P d of
        Inr v \<Rightarrow> (Fulfilled v, d)
      | Inl e \<Rightarrow> (Fulfilled (Movies []), console_error ''Error loading favorites:'' e d))"

subsection \<open>The favorites provider\<close>

text \<open>
  The provider's React state \<^verbatim>\<open>favorites\<close> together with the device. An operation runs
  in the closure of the latest render, so it reads the list the previous operation set. The
  call of \<^verbatim>\<open>saveFavorites\<close> is not awaited; the model lets the write settle within the
  step, and the in-memory list does not depend on it.
\<close>

record provider =
  favorites :: "Movie list"
  dev :: device

definition addFavorite :: "platform \<Rightarrow> Movie \<Rightarrow> provider \<Rightarrow> unit promise \<times> provider" where
  "addFavorite P movie s =
     (let newFavorites = favorites s @ [movie] in
      (Fulfilled (),
       \<lparr>favorites = newFavorites, dev = snd (saveFavorites P newFavorites (dev s))\<rparr>))"

definition removeFavorite :: "platform \<Rightarrow> int \<Rightarrow> provider \<Rightarrow> unit promise \<times> provider" where
  "removeFavorite P movieId s =
     (let newFavorites = filter (\<lambda>movie. id' movie \<noteq> movieId) (favorites s) in
      (Fulfilled (),
       \<lparr>favorites = newFavorites, dev = snd (saveFavorites P newFavorites (dev s))\<rparr>))"

definition isFavorite :: "provider \<Rightarrow> int \<Rightarrow> bool" where
  "isFavorite s movieId = list_ex (\<lambda>movie. id' movie = movieId) (favorites s)"

subsection \<open>The JSON text of a movie list\<close>

text \<open>
  What \<^verbatim>\<open>JSON.stringify\<close> writes for an array of movie objects, and a reader of exactly
  that form. The text is the compact one of ECMAScript: no white space, the fields in the
  order of the interface, strings quoted with the escapes of \<^verbatim>\<open>QuoteJSONString\<close>
  (a backslash before the double quote and before the backslash, the short forms for backspace, tab, line feed,
  form feed and carriage return, \<^verbatim>\<open>\u00XX\<close> for the other characters below space), numbers
  in decimal. JavaScript writes a number from \<open>10\<^sup>2\<^sup>1\<close> on, or below \<open>10\<^sup>-\<^sup>6\<close>, with an
  exponent; the identifiers, counts and scores of the catalog are far from both.
\<close>

definition hex_digit :: "nat \<Rightarrow> char" where
  "hex_digit n = ''0123456789abcdef'' ! n"

definition escape_char :: "char \<Rightarrow> string" where
  "escape_char c =
     (if c = CHR 0x08 then [CHR 0x5C, CHR ''b'']
      else if c = CHR 0x09 then [CHR 0x5C, CHR ''t'']
      else if c = CHR 0x0A then [CHR 0x5C, CHR ''n'']
      else if c = CHR 0x0C then [CHR 0x5C, CHR ''f'']
      else if c = CHR 0x0D then [CHR 0x5C, CHR ''r'']
      else if c = CHR 0x22 then [CHR 0x5C, CHR 0x22]
      else if c = CHR 0x5C then [CHR 0x5C, CHR 0x5C]
      else if (of_char c :: nat) < 32
        then [CHR 0x5C, CHR ''u'', CHR ''0'', CHR ''0'',
              hex_digit (of_char c div 16), hex_digit (of_char c mod 16)]
      else [c])"

definition quote :: "string \<Rightarrow> string" where
  "quote s = CHR 0x22 # concat (map escape_char s) @ [CHR 0x22]"

text \<open>The \<open>k\<close> digits after the point, and the text of \<open>m / 10\<^sup>k\<close>.\<close>

fun fraction_digits :: "nat \<Rightarrow> nat \<Rightarrow> string" where
  "fraction_digits 0 n = []"
| "fraction_digits (Suc k) n = fraction_digits k (n div 10) @ [digit_char (n mod 10)]"

definition decimal_text :: "int \<Rightarrow> nat \<Rightarrow> string" where
  "decimal_text m k =
     (if m < 0 then ''-'' else [])
     @ toString_nat (nat \<bar>m\<bar> div 10 ^ k)
     @ (if k = 0 then [] else ''.'' @ fraction_digits k (nat \<bar>m\<bar> mod 10 ^ k))"

definition number_text :: "number \<Rightarrow> string" where
  "number_text x = (case Rep_number x of (m, k) \<Rightarrow> decimal_text m k)"

definition movie_text :: "Movie \<Rightarrow> string" where
  \<open>movie_text m =
     ''{"id":'' @ Number_toString (id' m)
     @ '',"title":'' @ quote (title m)
     @ '',"overview":'' @ quote (overview m)
     @ '',"poster_path":'' @ quote (poster_path m)
     @ '',"backdrop_path":'' @ quote (backdrop_path m)
     @ '',"vote_average":'' @ number_text (vote_average m)
     @ '',"popularity":'' @ number_text (popularity m)
     @ '',"original_language":'' @ quote (original_language m)
     @ '',"release_date":'' @ quote (release_date m)
     @ '',"vote_count":'' @ Number_toString (vote_count m)
     @ ''}''\<close>

fun JSON_stringify_movies :: "Movie list \<Rightarrow> string" where
  "JSON_stringify_movies [] = ''[]''"
| "JSON_stringify_movies (m # ms) =
     ''['' @ movie_text m @ concat (map (\<lambda>x. '','' @ movie_text x) ms) @ '']''"

text \<open>
  The reader. Every text it accepts is JSON for the movie list it returns: the brackets,
  field names and order are those written above, a string may use any of the escapes above,
  and a number is accepted only if it is the text written for the number read.
\<close>

definition expect :: "string \<Rightarrow> string \<Rightarrow> string option" where
  "expect p s = (if take (length p) s = p then Some (drop (length p) s) else None)"

definition hex_value :: "char \<Rightarrow> nat option" where
  "hex_value c =
     (let n = (of_char c :: nat) in
      if 48 \<le> n \<and> n \<le> 57 then Some (n - 48)
      else if 97 \<le> n \<and> n \<le> 102 then Some (n - 87)
      else None)"

text \<open>The character an escape stands for, read after the backslash, and the rest.\<close>

definition unescape :: "string \<Rightarrow> (char \<times> string) option" where
  "unescape s =
     (case s of
        [] \<Rightarrow> None
      | e # r \<Rightarrow>
          if e = CHR ''b'' then Some (CHR 0x08, r)
          else if e = CHR ''t'' then Some (CHR 0x09, r)
          else if e = CHR ''n'' then Some (CHR 0x0A, r)
          else if e = CHR ''f'' then Some (CHR 0x0C, r)
          else if e = CHR ''r'' then Some (CHR 0x0D, r)
          else if e = CHR 0x22 then Some (CHR 0x22, r)
          else if e = CHR 0x5C then Some (CHR 0x5C, r)
          else if e = CHR ''u'' then
            (case r of
               a # b # h # l # r' \<Rightarrow>
                 (case (hex_value h, hex_value l) of
                    (Some x, Some y) \<Rightarrow>
                      if a = CHR ''0'' \<and> b = CHR ''0'' then Some (char_of (16 * x + y), r')
                      else None
                  | _ \<Rightarrow> None)
             | _ \<Rightarrow> None)
          else None)"

text \<open>The characters of a string up to its closing quote, and the rest.\<close>

function read_chars :: "string \<Rightarrow> (string \<times> string) option" where
  "read_chars [] = None"
| "read_chars (c # cs) =
     (if c = CHR 0x22 then Some ([], cs)
      else if c = CHR 0x5C then
        (case unescape cs of
           None \<Rightarrow> None
         | Some (x, r) \<Rightarrow> map_option (\<lambda>(t, r'). (x # t, r')) (read_chars r))
      else if (of_char c :: nat) < 32 then None
      else map_option (\<lambda>(t, r'). (c # t, r')) (read_chars cs))"
  by pat_completeness auto
termination
proof (relation "measure length")
  show "wf (measure length)"
    by simp
next
  fix c :: char and cs :: string and x2 x y
  assume "unescape cs = Some x2" and "(x, y) = x2"
  then have "length y < length cs"
    by (auto simp: unescape_def split: list.splits if_splits option.splits)
  then show "(y, c # cs) \<in> measure length"
    by simp
next
  fix c :: char and cs :: string
  show "(cs, c # cs) \<in> measure length"
    by simp
qed

definition read_string :: "string \<Rightarrow> (string \<times> string) option" where
  "read_string s =
     (case s of [] \<Rightarrow> None | c # cs \<Rightarrow> if c = CHR 0x22 then read_chars cs else None)"

definition number_char :: "char \<Rightarrow> bool" where
  "number_char c \<longleftrightarrow> c \<in> set ''-.0123456789''"

definition nat_of_digits :: "string \<Rightarrow> nat" where
  "nat_of_digits ds = foldl (\<lambda>a c. 10 * a + (of_char c - 48)) 0 ds"

definition decode_int :: "string \<Rightarrow> int option" where
  "decode_int t =
     (let i = (case t of
                 [] \<Rightarrow> 0
               | c # ds \<Rightarrow>
                   if c = CHR ''-'' then - int (nat_of_digits ds) else int (nat_of_digits t))
      in if Number_toString i = t then Some i else None)"

definition decode_number :: "string \<Rightarrow> number option" where
  "decode_number t =
     (let ds = (case t of [] \<Rightarrow> [] | c # r \<Rightarrow> if c = CHR ''-'' then r else t);
          ip = takeWhile (\<lambda>c. c \<noteq> CHR ''.'') ds;
          fp = drop 1 (dropWhile (\<lambda>c. c \<noteq> CHR ''.'') ds);
          a = int (nat_of_digits (ip @ fp));
          m = (if take 1 t = ''-'' then - a else a);
          k = length fp
      in if (k = 0 \<or> \<not> 10 dvd m) \<and> decimal_text m k = t then Some (Abs_number (m, k))
         else None)"

definition read_int :: "string \<Rightarrow> (int \<times> string) option" where
  "read_int s =
     (case decode_int (takeWhile number_char s) of
        None \<Rightarrow> None
      | Some i \<Rightarrow> Some (i, dropWhile number_char s))"

definition read_number :: "string \<Rightarrow> (number \<times> string) option" where
  "read_number s =
     (case decode_number (takeWhile number_char s) of
        None \<Rightarrow> None
      | Some x \<Rightarrow> Some (x, dropWhile number_char s))"

definition read_movie :: "string \<Rightarrow> (Movie \<times> string) option" where
  \<open>read_movie s0 = do {
     s \<leftarrow> expect ''{"id":'' s0;
     (i, s) \<leftarrow> read_int s;
     s \<leftarrow> expect '',"title":'' s;
     (t, s) \<leftarrow> read_string s;
     s \<leftarrow> expect '',"overview":'' s;
     (ov, s) \<leftarrow> read_string s;
     s \<leftarrow> expect '',"poster_path":'' s;
     (pp, s) \<leftarrow> read_string s;
     s \<leftarrow> expect '',"backdrop_path":'' s;
     (bp, s) \<leftarrow> read_string s;
     s \<leftarrow> expect '',"vote_average":'' s;
     (va, s) \<leftarrow> read_number s;
     s \<leftarrow> expect '',"popularity":'' s;
     (po, s) \<leftarrow> read_number s;
     s \<leftarrow> expect '',"original_language":'' s;
     (ol, s) \<leftarrow> read_string s;
     s \<leftarrow> expect '',"release_date":'' s;
     (rd, s) \<leftarrow> read_string s;
     s \<leftarrow> expect '',"vote_count":'' s;
     (vc, s) \<leftarrow> read_int s;
     s \<leftarrow> expect ''}'' s;
     Some (\<lparr>id' = i, title = t, overview = ov, poster_path = pp, backdrop_path = bp,
       vote_average = va, popularity = po, original_language = ol, release_date = rd,
       vote_count = vc\<rparr>, s)
   }\<close>

text \<open>
  The movies after the first, each after a comma, up to the closing bracket, which ends the
  text. The first argument bounds the number of movies read; the text is longer than that.
\<close>

fun read_more :: "nat \<Rightarrow> string \<Rightarrow> Movie list option" where
  "read_more 0 s = None"
| "read_more (Suc n) s =
     (if s = '']'' then Some []
      else do {
        s \<leftarrow> expect '','' s;
        (m, s) \<leftarrow> read_movie s;
        ms \<leftarrow> read_more n s;
        Some (m # ms)
      })"

definition JSON_parse_movies :: "string \<Rightarrow> Movie list option" where
  "JSON_parse_movies s =
     (if s = ''[]'' then Some []
      else do {
        s \<leftarrow> expect ''['' s;
        (m, s) \<leftarrow> read_movie s;
        ms \<leftarrow> read_more (length s) s;
        Some (m # ms)
      })"

text \<open>
  A platform with this JSON: \<^verbatim>\<open>JSON.stringify\<close> writes a movie list as above and
  \<^verbatim>\<open>JSON.parse\<close> reads such a text back. The requests of the platform and what
  \<^verbatim>\<open>JSON.parse\<close> does with any other text are the two parameters.
\<close>

definition JSON_platform ::
  "(string \<Rightarrow> response promise) \<Rightarrow> (string \<Rightarrow> error + js_any) \<Rightarrow> platform" where
  "JSON_platform requests other =
     \<lparr>axios_get = requests,
      JSON_stringify = JSON_stringify_movies,
      JSON_parse = (\<lambda>s. case JSON_parse_movies s of
                           Some ms \<Rightarrow> Inr (Movies ms)
                         | None \<Rightarrow> other s)\<rparr>"

subsection \<open>The field-for-field comparison of the specification\<close>

text \<open>
  Two movies agree on the ten fields the specification names:
  \<^verbatim>\<open>id, title, overview, poster_path, backdrop_path, vote_average, popularity,
  original_language, release_date, vote_count\<close>.
\<close>

definition same_fields :: "Movie \<Rightarrow> Movie \<Rightarrow> bool" where
  "same_fields a b \<longleftrightarrow>
     id' a = id' b \<and> title a = title b \<and> overview a = overview b \<and>
     poster_path a = poster_path b \<and> backdrop_path a = backdrop_path b \<and>
     vote_average a = vote_average b \<and> popularity a = popularity b \<and>
     original_language a = original_language b \<and> release_date a = release_date b \<and>
     vote_count a = vote_count b"

subsection \<open>Concrete movies, platforms and devices\<close>

text \<open>The inputs at which the theorems below are instantiated.\<close>

definition movie7 :: Movie where
  "movie7 = \<lparr>id' = 7, title = ''Seven'', overview = ''Two detectives.'',
     poster_path = ''/p7.jpg'', backdrop_path = ''/b7.jpg'', vote_average = decimal 85 1,
     popularity = decimal 125 1, original_language = ''en'', release_date = ''1995-09-22'',
     vote_count = 100\<rparr>"

definition movie42 :: Movie where
  "movie42 = \<lparr>id' = 42, title = ''X'', overview = ''An unknown.'',
     poster_path = ''/p42.jpg'', backdrop_path = ''/b42.jpg'', vote_average = decimal 6 0,
     popularity = decimal 325 2, original_language = ''id'', release_date = ''2020-01-01'',
     vote_count = 9\<rparr>"

definition json_movie7 :: string where
  \<open>json_movie7 = ''[{"id":7,"title":"Seven","overview":"Two detectives.","poster_path":"/p7.jpg","backdrop_path":"/b7.jpg","vote_average":8.5,"popularity":12.5,"original_language":"en","release_date":"1995-09-22","vote_count":100}]''\<close>

text \<open>
  A finite fragment of JSON, exact on what it lists: the empty array, the one-element
  array holding \<open>movie7\<close>, the number \<^verbatim>\<open>42\<close>, and the text \<^verbatim>\<open>not json\<close>, which is no
  JSON. The statements below read a stored text back only for these; the text the fragment
  gives for any other list is never looked at.
\<close>

definition stringify_fragment :: "Movie list \<Rightarrow> string" where
  "stringify_fragment favs = (if favs = [movie7] then json_movie7 else ''[]'')"

definition parse_fragment :: "string \<Rightarrow> error + js_any" where
  "parse_fragment s =
     (if s = ''[]'' then Inr (Movies [])
      else if s = json_movie7 then Inr (Movies [movie7])
      else if s = ''42'' then Inr (Other ''42'')
      else Inl SyntaxError)"

text \<open>A platform without network: every request is rejected.\<close>

definition offline :: platform where
  "offline = \<lparr>axios_get = (\<lambda>url. Rejected AxiosError),
     JSON_stringify = stringify_fragment, JSON_parse = parse_fragment\<rparr>"

text \<open>
  A platform whose catalog answers the listing of \<^verbatim>\<open>popular\<close> with two movies and the
  recommendations for movie 7 with an empty body.
\<close>

definition online :: platform where
  "online = \<lparr>axios_get = (\<lambda>url.
       if url = ''https://api.themoviedb.org/3/movie/popular?api_key='' @ API_KEY
           @ ''&language=en-US&page=1''
       then Fulfilled \<lparr>data = Body (Movies [movie7, movie42])\<rparr>
       else if url = ''https://api.themoviedb.org/3/movie/7/recommendations?api_key='' @ API_KEY
           @ ''&language=en-US&page=1''
       then Fulfilled \<lparr>data = NoBody\<rparr>
       else Rejected AxiosError),
     JSON_stringify = stringify_fragment, JSON_parse = parse_fragment\<rparr>"

text \<open>A working device with empty storage, and one whose storage rejects every write.\<close>

definition device0 :: device where
  "device0 = \<lparr>items = Map.empty, setItem_error = None, getItem_error = None, console = []\<rparr>"

definition device_full :: device where
  "device_full = device0\<lparr>setItem_error := Some StorageError\<rparr>"

definition device_with :: "string \<Rightarrow> device" where
  "device_with content = device0\<lparr>items := [''@favorites'' \<mapsto> content]\<rparr>"

definition provider_of :: "Movie list \<Rightarrow> provider" where
  "provider_of favs = \<lparr>favorites = favs, dev = device0\<rparr>"

text \<open>
  A platform whose catalog answers every request, but with a body that holds no
  \<^verbatim>\<open>results\<close>: an answer that could not be decoded and is kept as text, or an object of
  another shape.
\<close>

definition undecoded :: platform where
  "undecoded = \<lparr>axios_get = (\<lambda>url. Fulfilled \<lparr>data = Body Undefined\<rparr>),
     JSON_stringify = stringify_fragment, JSON_parse = parse_fragment\<rparr>"

text \<open>
  A platform without network whose JSON is \<open>JSON_platform\<close>, a device whose storage
  rejects every read, and the JSON text of two movies.
\<close>

definition json_offline :: platform where
  "json_offline = JSON_platform (\<lambda>url. Rejected AxiosError) parse_fragment"

definition device_unreadable :: device where
  "device_unreadable = device0\<lparr>getItem_error := Some StorageError\<rparr>"

definition json_movie42_movie7 :: string where
  \<open>json_movie42_movie7 = ''[{"id":42,"title":"X","overview":"An unknown.","poster_path":"/p42.jpg","backdrop_path":"/b42.jpg","vote_average":6,"popularity":3.25,"original_language":"id","release_date":"2020-01-01","vote_count":9},{"id":7,"title":"Seven","overview":"Two detectives.","poster_path":"/p7.jpg","backdrop_path":"/b7.jpg","vote_average":8.5,"popularity":12.5,"original_language":"en","release_date":"1995-09-22","vote_count":100}]''\<close>


section \<open>Properties\<close>

subsection \<open>Auxiliary facts\<close>

lemma favorites_addFavorite:
  "favorites (snd (addFavorite P m s)) = favorites s @ [m]"
  by (simp add: addFavorite_def Let_def)

lemma favorites_removeFavorite:
  "favorites (snd (removeFavorite P k s)) = filter (\<lambda>movie. id' movie \<noteq> k) (favorites s)"
  by (simp add: removeFavorite_def Let_def)

lemma promise_addFavorite: "fst (addFavorite P m s) = Fulfilled ()"
  by (simp add: addFavorite_def Let_def)

lemma promise_removeFavorite: "fst (removeFavorite P k s) = Fulfilled ()"
  by (simp add: removeFavorite_def Let_def)

lemma filter_other_ids_id:
  "filter (\<lambda>movie. id' movie \<noteq> k) xs = xs \<longleftrightarrow> (\<forall>x\<in>set xs. id' x \<noteq> k)"
  by (simp add: filter_id_conv)

lemma count_list_filter_kept: "Q x \<Longrightarrow> count_list (filter Q xs) x = count_list xs x"
  by (induction xs) auto

lemma same_fields_eq: "same_fields a b \<longleftrightarrow> a = (b :: Movie)"
  by (cases a, cases b) (auto simp: same_fields_def)

lemma list_all2_same_fields: "list_all2 same_fields ms rs \<longleftrightarrow> ms = rs"
proof -
  have "same_fields = (=)"
    by (intro ext) (simp add: same_fields_eq)
  then show ?thesis
    by (simp add: list.rel_eq)
qed

lemma get_results_Inl_iff:
  "get_results P url = Inl e \<longleftrightarrow>
     axios_get P url = Rejected e \<or>
     (\<exists>r. axios_get P url = Fulfilled r \<and> data r = NoBody \<and> e = TypeError)"
  by (auto simp: get_results_def results_of_def split: promise.splits body.splits)

subsection \<open>Reading back what was written\<close>

lemma strip_zeros_canonical:
  "case strip_zeros m k of (m', k') \<Rightarrow> k' = 0 \<or> \<not> 10 dvd m'"
  by (induction k arbitrary: m) auto

lemma Rep_decimal: "Rep_number (decimal m k) = strip_zeros m k"
  using strip_zeros_canonical [of m k]
  by (auto simp: decimal_def Abs_number_inverse split: prod.splits)

lemma expect_append: "expect p (p @ r) = Some r"
  by (simp add: expect_def)

lemma of_char_digit_char: "n < 10 \<Longrightarrow> (of_char (digit_char n) :: nat) = 48 + n"
proof -
  assume "n < 10"
  then consider "n = 0" | "n = 1" | "n = 2" | "n = 3" | "n = 4" | "n = 5" | "n = 6"
    | "n = 7" | "n = 8" | "n = 9"
    by atomize_elim arith
  then show ?thesis
    by cases (simp_all add: digit_char_def)
qed

lemma hex_value_hex_digit: "n < 16 \<Longrightarrow> hex_value (hex_digit n) = Some n"
proof -
  assume "n < 16"
  then consider "n = 0" | "n = 1" | "n = 2" | "n = 3" | "n = 4" | "n = 5" | "n = 6"
    | "n = 7" | "n = 8" | "n = 9" | "n = 10" | "n = 11" | "n = 12" | "n = 13" | "n = 14"
    | "n = 15"
    by atomize_elim arith
  then show ?thesis
    by cases (simp_all add: hex_digit_def hex_value_def)
qed

lemma unescape_control:
  assumes "(of_char c :: nat) < 32"
  shows "unescape (CHR ''u'' # CHR ''0'' # CHR ''0'' # hex_digit (of_char c div 16)
           # hex_digit (of_char c mod 16) # r) = Some (c, r)"
proof -
  have "(of_char c :: nat) div 16 < 16"
    using assms by simp
  moreover have "16 * ((of_char c :: nat) div 16) + of_char c mod 16 = of_char c"
    by simp
  ultimately show ?thesis
    by (simp add: unescape_def hex_value_hex_digit)
qed

lemma unescape_short:
  "unescape (CHR ''b'' # r) = Some (CHR 0x08, r)"
  "unescape (CHR ''t'' # r) = Some (CHR 0x09, r)"
  "unescape (CHR ''n'' # r) = Some (CHR 0x0A, r)"
  "unescape (CHR ''f'' # r) = Some (CHR 0x0C, r)"
  "unescape (CHR ''r'' # r) = Some (CHR 0x0D, r)"
  "unescape (CHR 0x22 # r) = Some (CHR 0x22, r)"
  "unescape (CHR 0x5C # r) = Some (CHR 0x5C, r)"
  by (simp_all add: unescape_def)

lemma read_chars_escape_char:
  "read_chars (escape_char c @ s) = map_option (\<lambda>(t, r). (c # t, r)) (read_chars s)"
proof (cases "(of_char c :: nat) < 32")
  case True
  then show ?thesis
    by (auto simp: escape_char_def unescape_short unescape_control)
next
  case False
  then show ?thesis
    by (auto simp: escape_char_def unescape_short)
qed

lemma read_chars_escaped:
  "read_chars (concat (map escape_char s) @ CHR 0x22 # r) = Some (s, r)"
  by (induction s) (simp_all add: read_chars_escape_char)

lemma read_string_quote: "read_string (quote s @ r) = Some (s, r)"
  by (simp add: read_string_def quote_def read_chars_escaped)

lemma digit_char_digit: "n < 10 \<Longrightarrow> digit_char n \<in> set ''0123456789''"
  unfolding digit_char_def by (rule nth_mem) simp

lemma digits_toString_nat: "set (toString_nat n) \<subseteq> set ''0123456789''"
proof (induction n rule: toString_nat.induct)
  case (1 n)
  show ?case
  proof (cases "n < 10")
    case True
    then show ?thesis
      using digit_char_digit [of n] by (subst toString_nat.simps) simp
  next
    case False
    then show ?thesis
      using 1 digit_char_digit [of "n mod 10"] by (subst toString_nat.simps) simp
  qed
qed

lemma toString_nat_not_empty: "toString_nat n \<noteq> []"
  by (subst toString_nat.simps) simp

lemma digits_fraction_digits: "set (fraction_digits k n) \<subseteq> set ''0123456789''"
proof (induction k arbitrary: n)
  case 0
  show ?case by simp
next
  case (Suc k)
  then show ?case
    using digit_char_digit [of "n mod 10"] by simp
qed

lemma length_fraction_digits: "length (fraction_digits k n) = k"
  by (induction k arbitrary: n) simp_all

lemma nat_of_digits_snoc:
  "d < 10 \<Longrightarrow> nat_of_digits (xs @ [digit_char d]) = 10 * nat_of_digits xs + d"
  by (simp add: nat_of_digits_def of_char_digit_char)

lemma nat_of_digits_toString_nat: "nat_of_digits (toString_nat n) = n"
proof (induction n rule: toString_nat.induct)
  case (1 n)
  show ?case
  proof (cases "n < 10")
    case True
    then show ?thesis
      using nat_of_digits_snoc [of n "[]"]
      by (subst toString_nat.simps) (simp add: nat_of_digits_def)
  next
    case False
    then show ?thesis
      using 1 by (subst toString_nat.simps) (simp add: nat_of_digits_snoc)
  qed
qed

lemma nat_of_digits_fraction_digits: "nat_of_digits (fraction_digits k n) = n mod 10 ^ k"
proof (induction k arbitrary: n)
  case 0
  show ?case by (simp add: nat_of_digits_def)
next
  case (Suc k)
  have "10 * (n div 10 mod 10 ^ k) + n mod 10 = n mod (10 * 10 ^ k)"
    by (simp add: mod_mult2_eq)
  then show ?case
    using Suc by (simp add: nat_of_digits_snoc)
qed

lemma nat_of_digits_append:
  "nat_of_digits (xs @ ys) = nat_of_digits xs * 10 ^ length ys + nat_of_digits ys"
proof (induction ys rule: rev_induct)
  case Nil
  show ?case by (simp add: nat_of_digits_def)
next
  case (snoc y ys)
  have "nat_of_digits (zs @ [y]) = 10 * nat_of_digits zs + (of_char y - 48)" for zs
    by (simp add: nat_of_digits_def)
  from this [of "xs @ ys"] this [of ys] snoc show ?case
    by (simp add: algebra_simps)
qed

lemma digit_is_number_char: "c \<in> set ''0123456789'' \<Longrightarrow> number_char c"
  by (auto simp: number_char_def)

lemma digit_not_minus: "c \<in> set ''0123456789'' \<Longrightarrow> c \<noteq> CHR ''-''"
  by auto

lemma digit_not_point: "c \<in> set ''0123456789'' \<Longrightarrow> c \<noteq> CHR ''.''"
  by auto

lemma toString_nat_Cons:
  obtains c cs where "toString_nat n = c # cs" and "c \<noteq> CHR ''-''"
proof -
  obtain c cs where eq: "toString_nat n = c # cs"
    using toString_nat_not_empty [of n] by (cases "toString_nat n") auto
  then have "c \<in> set ''0123456789''"
    using digits_toString_nat [of n] by auto
  then have "c \<noteq> CHR ''-''"
    by (rule digit_not_minus)
  with eq show ?thesis
    by (rule that)
qed

lemma decode_int_text: "decode_int (Number_toString i) = Some i"
proof (cases "i < 0")
  case True
  then show ?thesis
    by (simp add: decode_int_def Number_toString_def nat_of_digits_toString_nat)
next
  case False
  obtain c cs where eq: "toString_nat (nat i) = c # cs" and c: "c \<noteq> CHR ''-''"
    by (rule toString_nat_Cons)
  have "nat_of_digits (c # cs) = nat i"
    using nat_of_digits_toString_nat [of "nat i"] eq by simp
  with False eq c show ?thesis
    by (simp add: decode_int_def Number_toString_def)
qed

lemma number_chars_int_text:
  assumes "c \<in> set (Number_toString i)"
  shows "number_char c"
proof (cases "i < 0")
  case True
  with assms have "c = CHR ''-'' \<or> c \<in> set (toString_nat (nat (- i)))"
    by (simp add: Number_toString_def)
  then show ?thesis
  proof
    assume "c = CHR ''-''"
    then show ?thesis by (simp add: number_char_def)
  next
    assume "c \<in> set (toString_nat (nat (- i)))"
    then have "c \<in> set ''0123456789''"
      using digits_toString_nat by blast
    then show ?thesis by (rule digit_is_number_char)
  qed
next
  case False
  with assms have "c \<in> set (toString_nat (nat i))"
    by (simp add: Number_toString_def)
  then have "c \<in> set ''0123456789''"
    using digits_toString_nat by blast
  then show ?thesis by (rule digit_is_number_char)
qed

lemma read_int_text:
  assumes "\<not> number_char c"
  shows "read_int (Number_toString i @ c # r) = Some (i, c # r)"
proof -
  have all: "\<And>x. x \<in> set (Number_toString i) \<Longrightarrow> number_char x"
    by (rule number_chars_int_text)
  have "takeWhile number_char (Number_toString i @ c # r) = Number_toString i"
    using assms by (simp add: takeWhile_append2 [OF all])
  moreover have "dropWhile number_char (Number_toString i @ c # r) = c # r"
    using assms by (simp add: dropWhile_append2 [OF all])
  ultimately show ?thesis
    by (simp add: read_int_def decode_int_text)
qed

lemma decode_decimal_text:
  assumes canonical: "k = 0 \<or> \<not> 10 dvd m"
  shows "decode_number (decimal_text m k) = Some (Abs_number (m, k))"
proof -
  define a where "a = nat \<bar>m\<bar>"
  define ip where "ip = toString_nat (a div 10 ^ k)"
  define fp where "fp = fraction_digits k (a mod 10 ^ k)"
  define rest where "rest = (if k = 0 then [] else CHR ''.'' # fp)"
  define t where "t = decimal_text m k"
  have t: "t = (if m < 0 then ''-'' else []) @ ip @ rest"
    by (simp add: t_def decimal_text_def ip_def fp_def rest_def a_def)
  obtain c cs where ip: "ip = c # cs" and c: "c \<noteq> CHR ''-''"
    unfolding ip_def by (rule toString_nat_Cons)
  have ds: "(case t of [] \<Rightarrow> [] | c # r \<Rightarrow> if c = CHR ''-'' then r else t) = ip @ rest"
    using c by (simp add: t ip)
  have sign: "take 1 t = ''-'' \<longleftrightarrow> m < 0"
    using c by (simp add: t ip)
  have no_point: "\<And>x. x \<in> set ip \<Longrightarrow> x \<noteq> CHR ''.''"
    using digits_toString_nat [of "a div 10 ^ k"] digit_not_point
    unfolding ip_def by blast
  have int_part: "takeWhile (\<lambda>c. c \<noteq> CHR ''.'') (ip @ rest) = ip"
    by (simp add: takeWhile_append2 [OF no_point] rest_def)
  have "dropWhile (\<lambda>c. c \<noteq> CHR ''.'') (ip @ rest) = rest"
    by (simp add: dropWhile_append2 [OF no_point] rest_def)
  then have fraction: "drop 1 (dropWhile (\<lambda>c. c \<noteq> CHR ''.'') (ip @ rest)) = fp"
    by (simp add: rest_def fp_def)
  have len: "length fp = k"
    by (simp add: fp_def length_fraction_digits)
  have "nat_of_digits (ip @ fp) = a div 10 ^ k * 10 ^ k + a mod 10 ^ k"
    by (simp add: nat_of_digits_append len)
      (simp add: ip_def fp_def nat_of_digits_toString_nat nat_of_digits_fraction_digits)
  then have val: "nat_of_digits (ip @ fp) = a"
    by (simp only: div_mult_mod_eq)
  have m: "(if m < 0 then - int a else int a) = m"
    by (simp add: a_def)
  have "decode_number t = Some (Abs_number (m, k))"
    unfolding decode_number_def Let_def ds int_part fraction val sign len m
    using canonical by (simp add: t_def)
  then show ?thesis
    by (simp add: t_def)
qed

lemma decode_number_text: "decode_number (number_text x) = Some x"
proof -
  obtain m k where rep: "Rep_number x = (m, k)"
    by (cases "Rep_number x")
  have "(m, k) \<in> {(m, k). k = 0 \<or> \<not> 10 dvd m}"
    using Rep_number [of x] by (simp add: rep)
  then have "decode_number (decimal_text m k) = Some (Abs_number (m, k))"
    by (simp add: decode_decimal_text)
  then show ?thesis
    using Rep_number_inverse [of x] by (simp add: number_text_def rep)
qed

lemma number_chars_decimal_text:
  assumes "c \<in> set (decimal_text m k)"
  shows "number_char c"
proof -
  from assms consider "c = CHR ''-''" | "c = CHR ''.''"
    | "c \<in> set (toString_nat (nat \<bar>m\<bar> div 10 ^ k))"
    | "c \<in> set (fraction_digits k (nat \<bar>m\<bar> mod 10 ^ k))"
    by (auto simp: decimal_text_def split: if_splits)
  then show ?thesis
  proof cases
    case 1
    then show ?thesis by (simp add: number_char_def)
  next
    case 2
    then show ?thesis by (simp add: number_char_def)
  next
    case 3
    then have "c \<in> set ''0123456789''"
      using digits_toString_nat by blast
    then show ?thesis by (rule digit_is_number_char)
  next
    case 4
    then have "c \<in> set ''0123456789''"
      using digits_fraction_digits by blast
    then show ?thesis by (rule digit_is_number_char)
  qed
qed

lemma read_number_text:
  assumes "\<not> number_char c"
  shows "read_number (number_text x @ c # r) = Some (x, c # r)"
proof -
  have all: "\<And>y. y \<in> set (number_text x) \<Longrightarrow> number_char y"
    by (auto simp: number_text_def split: prod.splits dest: number_chars_decimal_text)
  have "takeWhile number_char (number_text x @ c # r) = number_text x"
    using assms by (simp add: takeWhile_append2 [OF all])
  moreover have "dropWhile number_char (number_text x @ c # r) = c # r"
    using assms by (simp add: dropWhile_append2 [OF all])
  ultimately show ?thesis
    by (simp add: read_number_def decode_number_text)
qed

lemma read_movie_text: "read_movie (movie_text m @ r) = Some (m, r)"
  by (cases m)
    (simp add: read_movie_def movie_text_def expect_def read_int_text read_string_quote
      read_number_text number_char_def)

lemma read_more_text:
  "length ms < n \<Longrightarrow>
     read_more n (concat (map (\<lambda>x. '','' @ movie_text x) ms) @ '']'') = Some ms"
proof (induction ms arbitrary: n)
  case Nil
  then show ?case
    by (cases n) simp_all
next
  case (Cons m ms)
  then obtain n' where n: "n = Suc n'" and less: "length ms < n'"
    by (cases n) simp_all
  have "read_movie (movie_text m @ concat (map (\<lambda>x. '','' @ movie_text x) ms) @ '']'')
      = Some (m, concat (map (\<lambda>x. '','' @ movie_text x) ms) @ '']'')"
    by (rule read_movie_text)
  with Cons.IH [OF less] show ?case
    by (simp add: n expect_def)
qed

lemma length_movies_text: "length ms \<le> length (concat (map (\<lambda>x. '','' @ movie_text x) ms))"
  by (induction ms) simp_all

lemma JSON_parse_movies_text: "JSON_parse_movies (JSON_stringify_movies C) = Some C"
proof (cases C)
  case Nil
  then show ?thesis
    by (simp add: JSON_parse_movies_def)
next
  case (Cons m ms)
  define rest where "rest = concat (map (\<lambda>x. '','' @ movie_text x) ms) @ '']''"
  have written: "JSON_stringify_movies (m # ms) = CHR ''['' # movie_text m @ rest"
    by (simp add: rest_def)
  have "movie_text m @ rest \<noteq> '']''"
    by (simp add: movie_text_def)
  then have not_empty: "CHR ''['' # movie_text m @ rest \<noteq> ''[]''"
    by simp
  have first: "read_movie (movie_text m @ rest) = Some (m, rest)"
    by (rule read_movie_text)
  have "length ms < length rest"
    using length_movies_text [of ms] by (simp add: rest_def)
  then have more: "read_more (length rest) rest = Some ms"
    unfolding rest_def by (rule read_more_text)
  have "JSON_parse_movies (CHR ''['' # movie_text m @ rest) = Some (m # ms)"
    using not_empty by (simp add: JSON_parse_movies_def expect_def first more)
  then show ?thesis
    unfolding Cons written .
qed

lemma JSON_stringify_movies_not_empty: "JSON_stringify_movies C \<noteq> []"
  by (cases C) simp_all

lemma JSON_platform_reads_back:
  "JSON_parse (JSON_platform requests other)
     (JSON_stringify (JSON_platform requests other) C) = Inr (Movies C)"
  by (simp add: JSON_platform_def JSON_parse_movies_text)

lemma stringify_movie7: "JSON_stringify_movies [movie7] = json_movie7"
  by (simp add: movie_text_def movie7_def json_movie7_def quote_def escape_char_def
      number_text_def Rep_decimal decimal_text_def Number_toString_def toString_nat.simps
      digit_char_def)

subsection \<open>Adding to the favorites\<close>

text \<open>
  Claim C3. For every in-memory favorites collection and every movie \<open>m\<close>, \<open>addFavorite\<close>
  appends \<open>m\<close> at the end of the collection and makes no uniqueness check on the id: adding
  the same movie twice with no remove in between appends it twice, so the collection then
  holds two more entries with that id than before (two entries when it held none).
\<close>

theorem addFavorite_appends_without_uniqueness_check:
  "favorites (snd (addFavorite P m s)) = favorites s @ [m]
   \<and> favorites (snd (addFavorite P m (snd (addFavorite P m s)))) = favorites s @ [m, m]
   \<and> length (filter (\<lambda>x. id' x = id' m)
        (favorites (snd (addFavorite P m (snd (addFavorite P m s))))))
     = length (filter (\<lambda>x. id' x = id' m) (favorites s)) + 2"
  by (simp add: favorites_addFavorite)

theorem addFavorite_appends_without_uniqueness_check_witness:
  "favorites (snd (addFavorite offline movie7 (provider_of [movie7, movie42])))
     = [movie7, movie42, movie7]
   \<and> favorites (snd (addFavorite offline movie7 (snd (addFavorite offline movie7 (provider_of [])))))
     = [movie7, movie7]
   \<and> length (filter (\<lambda>x. id' x = 7)
        (favorites (snd (addFavorite offline movie7
           (snd (addFavorite offline movie7 (provider_of [])))))))
     = 2"
  using addFavorite_appends_without_uniqueness_check [of offline movie7 "provider_of [movie7, movie42]"]
    addFavorite_appends_without_uniqueness_check [of offline movie7 "provider_of []"]
  by (simp add: provider_of_def movie7_def)

subsection \<open>Removing from the favorites\<close>

text \<open>
  Claim C4. For every in-memory favorites collection and every integer \<open>movieId\<close>,
  \<open>removeFavorite\<close> removes every entry whose id equals \<open>movieId\<close>, duplicates included,
  and keeps exactly the other entries; if no entry has that id the collection is unchanged;
  the call settles without an error in every case.
\<close>

theorem removeFavorite_removes_every_match:
  "fst (removeFavorite P movieId s) = Fulfilled ()
   \<and> favorites (snd (removeFavorite P movieId s))
     = filter (\<lambda>movie. id' movie \<noteq> movieId) (favorites s)
   \<and> (\<forall>x\<in>set (favorites (snd (removeFavorite P movieId s))). id' x \<noteq> movieId)
   \<and> (\<forall>x\<in>set (favorites s). id' x \<noteq> movieId \<longrightarrow>
        count_list (favorites (snd (removeFavorite P movieId s))) x = count_list (favorites s) x)
   \<and> ((\<forall>x\<in>set (favorites s). id' x \<noteq> movieId) \<longrightarrow>
        favorites (snd (removeFavorite P movieId s)) = favorites s)"
  by (simp add: favorites_removeFavorite promise_removeFavorite filter_other_ids_id
      count_list_filter_kept)

theorem removeFavorite_removes_every_match_witness:
  "fst (removeFavorite offline 7 (provider_of [movie7, movie42, movie7])) = Fulfilled ()
   \<and> favorites (snd (removeFavorite offline 7 (provider_of [movie7, movie42, movie7]))) = [movie42]
   \<and> movie42 \<in> set [movie7, movie42, movie7] \<and> id' movie42 \<noteq> 7
   \<and> count_list (favorites (snd (removeFavorite offline 7 (provider_of [movie7, movie42, movie7])))) movie42 = 1
   \<and> list_all (\<lambda>x. id' x \<noteq> 7) (favorites (provider_of [movie42]))
   \<and> favorites (snd (removeFavorite offline 7 (provider_of [movie42]))) = [movie42]"
  using removeFavorite_removes_every_match [of offline 7 "provider_of [movie7, movie42, movie7]"]
    removeFavorite_removes_every_match [of offline 7 "provider_of [movie42]"]
  by (simp add: provider_of_def movie7_def movie42_def)

subsection \<open>Membership\<close>

text \<open>
  Claim C5. For every favorites collection and every movie \<open>m\<close>, \<open>isFavorite\<close> of the id
  of \<open>m\<close> is true in the state \<open>addFavorite\<close> leaves; for every integer \<open>movieId\<close>,
  \<open>isFavorite\<close> of \<open>movieId\<close> is false in the state \<open>removeFavorite\<close> leaves; and
  \<open>isFavorite\<close> is true exactly when some entry of the in-memory collection has that id.
\<close>

theorem isFavorite_after_add_and_remove:
  "isFavorite (snd (addFavorite P m s)) (id' m)
   \<and> \<not> isFavorite (snd (removeFavorite P movieId s)) movieId
   \<and> (isFavorite s movieId \<longleftrightarrow> (\<exists>x\<in>set (favorites s). id' x = movieId))"
  by (simp add: isFavorite_def favorites_addFavorite favorites_removeFavorite list_ex_iff)

theorem isFavorite_after_add_and_remove_witness:
  "isFavorite (snd (addFavorite offline movie42 (provider_of [movie7]))) 42
   \<and> \<not> isFavorite (snd (removeFavorite offline 7 (provider_of [movie7, movie42, movie7]))) 7
   \<and> isFavorite (provider_of [movie7, movie42]) 42
   \<and> movie42 \<in> set (favorites (provider_of [movie7, movie42]))
   \<and> \<not> isFavorite (provider_of [movie7]) 42"
  using isFavorite_after_add_and_remove
      [where P = offline and m = movie42 and s = "provider_of [movie7]" and movieId = 42]
    isFavorite_after_add_and_remove
      [where P = offline and m = movie42 and s = "provider_of [movie7, movie42, movie7]"
         and movieId = 7]
    isFavorite_after_add_and_remove
      [where P = offline and m = movie42 and s = "provider_of [movie7, movie42]" and movieId = 42]
  by (simp add: provider_of_def movie7_def movie42_def)

subsection \<open>Insertion order\<close>

text \<open>
  Claim C9. The favorites collection keeps insertion order under both mutations:
  \<open>addFavorite\<close> puts the new movie last and leaves every existing entry unchanged at its
  position, and \<open>removeFavorite\<close> keeps the remaining entries in their relative order (the
  new list is a subsequence of the old one).
\<close>

theorem favorites_keep_insertion_order:
  "length (favorites (snd (addFavorite P m s))) = Suc (length (favorites s))
   \<and> (\<forall>i<length (favorites s). favorites (snd (addFavorite P m s)) ! i = favorites s ! i)
   \<and> favorites (snd (addFavorite P m s)) ! length (favorites s) = m
   \<and> prefix (favorites s) (favorites (snd (addFavorite P m s)))
   \<and> subseq (favorites (snd (removeFavorite P movieId s))) (favorites s)"
  by (simp add: favorites_addFavorite favorites_removeFavorite nth_append)

theorem favorites_keep_insertion_order_witness:
  "length (favorites (snd (addFavorite offline movie7 (provider_of [movie42, movie7])))) = 3
   \<and> favorites (snd (addFavorite offline movie7 (provider_of [movie42, movie7]))) ! 0 = movie42
   \<and> favorites (snd (addFavorite offline movie7 (provider_of [movie42, movie7]))) ! 1 = movie7
   \<and> favorites (snd (addFavorite offline movie7 (provider_of [movie42, movie7]))) ! 2 = movie7
   \<and> subseq (favorites (snd (removeFavorite offline 42 (provider_of [movie42, movie7]))))
        [movie42, movie7]"
  using favorites_keep_insertion_order
      [where P = offline and m = movie7 and s = "provider_of [movie42, movie7]" and movieId = 42]
  by (simp add: provider_of_def numeral_2_eq_2 All_less_Suc)

subsection \<open>Adding and then removing\<close>

text \<open>
  Claim C10. Adding a movie \<open>m\<close> and then removing the id of \<open>m\<close> gives back the
  in-memory collection it started from exactly when that collection held no entry with the
  id of \<open>m\<close>: for a fresh id the two steps are the identity, and when an entry with that id
  was already present they are not, since the removal strips every match.
\<close>

theorem add_then_remove_identity_iff_fresh:
  "favorites (snd (removeFavorite P (id' m) (snd (addFavorite P m s)))) = favorites s
   \<longleftrightarrow> (\<forall>x\<in>set (favorites s). id' x \<noteq> id' m)"
  by (simp add: favorites_addFavorite favorites_removeFavorite filter_other_ids_id)

theorem add_then_remove_identity_iff_fresh_witness:
  "list_all (\<lambda>x. id' x \<noteq> id' movie7) (favorites (provider_of [movie42]))
   \<and> favorites (snd (removeFavorite offline (id' movie7)
        (snd (addFavorite offline movie7 (provider_of [movie42]))))) = [movie42]
   \<and> movie7 \<in> set (favorites (provider_of [movie7, movie42]))
   \<and> favorites (snd (removeFavorite offline (id' movie7)
        (snd (addFavorite offline movie7 (provider_of [movie7, movie42]))))) \<noteq> [movie7, movie42]"
  using add_then_remove_identity_iff_fresh [of offline movie7 "provider_of [movie42]"]
    add_then_remove_identity_iff_fresh [of offline movie7 "provider_of [movie7, movie42]"]
  by (simp add: provider_of_def movie7_def movie42_def)

subsection \<open>Failed catalog requests\<close>

text \<open>
  A catalog request fails when its \<^verbatim>\<open>try\<close> block raises, that is when \<open>get_results\<close>
  is \<open>Inl e\<close>: the request is rejected with \<open>e\<close>, or it is answered without a body and
  reading \<^verbatim>\<open>results\<close> raises a \<^verbatim>\<open>TypeError\<close> (lemma \<open>get_results_Inl_iff\<close>).

  Claim C2, as amended. For every endpoint, so for each of \<^verbatim>\<open>now_playing\<close>, \<^verbatim>\<open>popular\<close>,
  \<^verbatim>\<open>top_rated\<close> and \<^verbatim>\<open>upcoming\<close>, and for every movie id: when the catalog request
  fails in this sense, \<open>fetchMovies\<close> and \<open>fetchMovieRecommendations\<close> each settle
  normally with the empty list; the error goes to the console and not to the caller.
\<close>

theorem fetch_failure_gives_empty_list:
  "(get_results P (fetchMovies_url endpoint) = Inl e \<longrightarrow>
      fetchMovies P endpoint d
        = (Fulfilled (Movies []), console_error ''Error fetching movies:'' e d))
   \<and> (get_results P (fetchMovieRecommendations_url movieId) = Inl e' \<longrightarrow>
      fetchMovieRecommendations P movieId d
        = (Fulfilled (Movies []), console_error ''Error fetching recommendations:'' e' d))"
  by (simp add: fetchMovies_def fetchMovieRecommendations_def)

theorem fetch_failure_gives_empty_list_witness:
  "get_results offline (fetchMovies_url ''now_playing'') = Inl AxiosError
   \<and> fst (fetchMovies offline ''now_playing'' device0) = Fulfilled (Movies [])
   \<and> console (snd (fetchMovies offline ''now_playing'' device0))
       = [(''Error fetching movies:'', AxiosError)]
   \<and> get_results online (fetchMovieRecommendations_url 7) = Inl TypeError
   \<and> fst (fetchMovieRecommendations online 7 device0) = Fulfilled (Movies [])
   \<and> console (snd (fetchMovieRecommendations online 7 device0))
       = [(''Error fetching recommendations:'', TypeError)]"
proof -
  have a: "get_results offline (fetchMovies_url ''now_playing'') = Inl AxiosError"
    by (simp add: get_results_def offline_def)
  have b: "get_results online (fetchMovieRecommendations_url 7) = Inl TypeError"
    by (simp add: get_results_def results_of_def online_def fetchMovieRecommendations_url_def
        Number_toString_def toString_nat.simps digit_char_def BASE_URL_def API_KEY_def)
  show ?thesis
    using a b
      fetch_failure_gives_empty_list
        [where P = offline and endpoint = "''now_playing''" and e = AxiosError and d = device0
           and movieId = 7 and e' = AxiosError]
      fetch_failure_gives_empty_list
        [where P = online and endpoint = "''now_playing''" and e = AxiosError and d = device0
           and movieId = 7 and e' = TypeError]
    by (simp add: console_error_def device0_def)
qed

text \<open>
  The claim as first stated, for every failure to decode the answer, fails on a response
  that arrives but holds no \<^verbatim>\<open>results\<close>: nothing raises, so the \<^verbatim>\<open>catch\<close> is not
  reached; the caller receives \<^verbatim>\<open>undefined\<close> and nothing is logged.
\<close>

theorem fetch_undecoded_body_not_empty:
  "get_results undecoded (fetchMovies_url ''popular'') = Inr Undefined
   \<and> fetchMovies undecoded ''popular'' device0 = (Fulfilled Undefined, device0)
   \<and> fst (fetchMovies undecoded ''popular'' device0) \<noteq> Fulfilled (Movies [])
   \<and> get_results undecoded (fetchMovieRecommendations_url 7) = Inr Undefined
   \<and> fetchMovieRecommendations undecoded 7 device0 = (Fulfilled Undefined, device0)
   \<and> fst (fetchMovieRecommendations undecoded 7 device0) \<noteq> Fulfilled (Movies [])"
  by (simp add: fetchMovies_def fetchMovieRecommendations_def get_results_def results_of_def
      undecoded_def)

subsection \<open>Well-formed catalog responses\<close>

text \<open>
  Claim C8. For every well-formed catalog response, that is a response whose body has a
  \<^verbatim>\<open>results\<close> array of movie objects, \<open>fetchMovies\<close> settles with a list of the same
  length as that array whose elements agree with the array's elements, position by position,
  on all ten fields of \<open>Movie\<close>.
\<close>

theorem fetchMovies_well_formed_response:
  assumes "axios_get P (fetchMovies_url endpoint) = Fulfilled r"
    and "data r = Body (Movies rs)"
  shows "\<exists>ms. fetchMovies P endpoint d = (Fulfilled (Movies ms), d)
    \<and> length ms = length rs \<and> list_all2 same_fields ms rs"
proof -
  have "fetchMovies P endpoint d = (Fulfilled (Movies rs), d)"
    using assms by (simp add: fetchMovies_def get_results_def results_of_def)
  then show ?thesis
    by (simp add: list_all2_same_fields)
qed

theorem fetchMovies_well_formed_response_witness:
  "axios_get online (fetchMovies_url ''popular'')
     = Fulfilled \<lparr>data = Body (Movies [movie7, movie42])\<rparr>
   \<and> fetchMovies online ''popular'' device0 = (Fulfilled (Movies [movie7, movie42]), device0)"
proof -
  have a: "axios_get online (fetchMovies_url ''popular'')
      = Fulfilled \<lparr>data = Body (Movies [movie7, movie42])\<rparr>"
    by (simp add: online_def fetchMovies_url_def BASE_URL_def API_KEY_def)
  have b: "data \<lparr>data = Body (Movies [movie7, movie42])\<rparr> = Body (Movies [movie7, movie42])"
    by simp
  from fetchMovies_well_formed_response [OF a b, of device0]
  show ?thesis
    using a by (auto simp: list_all2_same_fields)
qed

subsection \<open>Failed searches\<close>

text \<open>
  Claim C1, as amended. For every search query, when the catalog request fails, the search
  operation settles normally, raising no error to its caller, and leaves the screen's result
  list as it was: empty if no search had filled it before, and otherwise still holding the
  movies of the last successful search. The error goes to the console.
\<close>

theorem handleSearch_failure_keeps_results:
  assumes "get_results P (handleSearch_url (query s)) = Inl e"
  shows "handleSearch P s d = (Fulfilled (), s, console_error ''Error searching movies:'' e d)"
  using assms by (simp add: handleSearch_def)

theorem handleSearch_failure_keeps_results_witness:
  "get_results offline (handleSearch_url (query (SearchScreen_initial\<lparr>query := ''seven''\<rparr>)))
     = Inl AxiosError
   \<and> fst (handleSearch offline (SearchScreen_initial\<lparr>query := ''seven''\<rparr>) device0)
     = Fulfilled ()
   \<and> results (fst (snd (handleSearch offline (SearchScreen_initial\<lparr>query := ''seven''\<rparr>) device0)))
     = Movies []"
proof -
  have a: "get_results offline (handleSearch_url (query (SearchScreen_initial\<lparr>query := ''seven''\<rparr>)))
      = Inl AxiosError"
    by (simp add: get_results_def offline_def)
  from handleSearch_failure_keeps_results [OF a, of device0]
  show ?thesis
    using a by (simp add: SearchScreen_initial_def)
qed

text \<open>
  The claim as first stated, that a failed search returns the empty list, fails on a screen
  that already shows results: the failed search leaves them in place.
\<close>

theorem handleSearch_failure_not_empty:
  "get_results offline (handleSearch_url ''eight'') = Inl AxiosError
   \<and> results (fst (snd (handleSearch offline
        \<lparr>query = ''eight'', results = Movies [movie7]\<rparr> device0))) = Movies [movie7]
   \<and> results (fst (snd (handleSearch offline
        \<lparr>query = ''eight'', results = Movies [movie7]\<rparr> device0))) \<noteq> Movies []"
  by (simp add: handleSearch_def get_results_def offline_def)

subsection \<open>Saving and loading the favorites\<close>

text \<open>
  Claim C6, as amended. For every favorites collection \<open>C\<close>, on a device whose storage
  accepts the write and the following read: saving \<open>C\<close> with \<open>saveFavorites\<close> and then
  loading with \<open>loadFavorites\<close> returns \<open>C\<close> unchanged, with the same length, the same
  order and entries equal field by field. The JSON text is the one written by
  \<open>JSON_stringify_movies\<close> and read back by \<open>JSON_parse_movies\<close>.
\<close>

theorem save_then_load_returns_collection:
  assumes "setItem_error d = None" and "getItem_error d = None"
  shows "\<exists>L. fst (loadFavorites (JSON_platform requests other)
                (snd (saveFavorites (JSON_platform requests other) C d)))
           = Fulfilled (Movies L)
    \<and> length L = length C \<and> list_all2 same_fields L C"
proof -
  let ?P = "JSON_platform requests other"
  have "items (snd (saveFavorites ?P C d)) ''@favorites'' = Some (JSON_stringify ?P C)"
    and "getItem_error (snd (saveFavorites ?P C d)) = None"
    using assms by (simp_all add: saveFavorites_def AsyncStorage_setItem_def)
  moreover have "JSON_stringify ?P C \<noteq> []"
    by (simp add: JSON_platform_def JSON_stringify_movies_not_empty)
  moreover have "JSON_parse ?P (JSON_stringify ?P C) = Inr (Movies C)"
    by (rule JSON_platform_reads_back)
  ultimately have "fst (loadFavorites ?P (snd (saveFavorites ?P C d))) = Fulfilled (Movies C)"
    by (simp add: loadFavorites_def loadFavorites_try_def AsyncStorage_getItem_def)
  then show ?thesis
    by (simp add: list_all2_same_fields)
qed

theorem save_then_load_returns_collection_witness:
  "setItem_error device0 = None \<and> getItem_error device0 = None
   \<and> items (snd (saveFavorites json_offline [movie42, movie7] device0)) ''@favorites''
       = Some json_movie42_movie7
   \<and> fst (loadFavorites json_offline (snd (saveFavorites json_offline [movie42, movie7] device0)))
       = Fulfilled (Movies [movie42, movie7])"
proof -
  have a: "setItem_error device0 = None" and b: "getItem_error device0 = None"
    by (simp_all add: device0_def)
  have "strip_zeros 325 2 = (325, 2)" and "fraction_digits 2 25 = ''25''"
    by (simp_all add: numeral_2_eq_2 digit_char_def)
  then have scores: "number_text (decimal 6 0) = ''6''"
    "number_text (decimal 325 2) = ''3.25''"
    "number_text (decimal 85 (Suc 0)) = ''8.5''"
    "number_text (decimal 125 (Suc 0)) = ''12.5''"
    by (simp_all add: number_text_def Rep_decimal decimal_text_def toString_nat.simps
        digit_char_def)
  have c: "items (snd (saveFavorites json_offline [movie42, movie7] device0)) ''@favorites''
      = Some json_movie42_movie7"
    by (simp add: saveFavorites_def AsyncStorage_setItem_def device0_def json_offline_def
        JSON_platform_def movie_text_def movie7_def movie42_def json_movie42_movie7_def
        quote_def escape_char_def scores Number_toString_def toString_nat.simps digit_char_def)
  from save_then_load_returns_collection
    [OF a b, of "\<lambda>url. Rejected AxiosError" parse_fragment "[movie42, movie7]"]
  show ?thesis
    using a b c by (auto simp: list_all2_same_fields json_offline_def)
qed

text \<open>
  The claim as first stated, with no condition on the device, fails where the storage
  rejects the write: \<open>saveFavorites\<close> logs the error and the slot stays as it was, so the
  following load does not return the collection. It fails as well where the storage accepts
  the write and rejects the read: \<open>loadFavorites\<close> logs the error and returns the empty
  list.
\<close>

theorem save_then_load_storage_rejects:
  "setItem_error device_full = Some StorageError
   \<and> fst (loadFavorites json_offline (snd (saveFavorites json_offline [movie42, movie7] device_full)))
       = Fulfilled (Movies [])
   \<and> fst (loadFavorites json_offline (snd (saveFavorites json_offline [movie42, movie7] device_full)))
       \<noteq> Fulfilled (Movies [movie42, movie7])
   \<and> getItem_error device_unreadable = Some StorageError
   \<and> fst (loadFavorites json_offline
        (snd (saveFavorites json_offline [movie42, movie7] device_unreadable)))
       = Fulfilled (Movies [])
   \<and> fst (loadFavorites json_offline
        (snd (saveFavorites json_offline [movie42, movie7] device_unreadable)))
       \<noteq> Fulfilled (Movies [movie42, movie7])"
  by (simp add: loadFavorites_def loadFavorites_try_def saveFavorites_def
      AsyncStorage_setItem_def AsyncStorage_getItem_def console_error_def
      device_full_def device_unreadable_def device0_def)

subsection \<open>Loading from an absent or unreadable slot\<close>

text \<open>
  Claim C7, as amended. \<open>loadFavorites\<close> returns the empty list when the slot
  \<^verbatim>\<open>@favorites\<close> is absent, and also returns the empty list, raising no error, when the
  slot is present but its content is the empty string or is not JSON, so that
  \<^verbatim>\<open>JSON.parse\<close> raises. Content that \<^verbatim>\<open>JSON.parse\<close> accepts is returned as parsed,
  whether or not it is a movie list.
\<close>

theorem loadFavorites_absent_or_unparsable:
  "(items d ''@favorites'' = None \<longrightarrow> fst (loadFavorites P d) = Fulfilled (Movies []))
   \<and> (items d ''@favorites'' = Some c \<and> (c = '''' \<or> JSON_parse P c = Inl e) \<longrightarrow>
        fst (loadFavorites P d) = Fulfilled (Movies []))
   \<and> (getItem_error d = None \<and> items d ''@favorites'' = Some c \<and> c \<noteq> ''''
        \<and> JSON_parse P c = Inr v \<longrightarrow>
        fst (loadFavorites P d) = Fulfilled v)"
  by (auto simp: loadFavorites_def loadFavorites_try_def AsyncStorage_getItem_def
      split: option.splits sum.splits)

theorem loadFavorites_absent_or_unparsable_witness:
  "items device0 ''@favorites'' = None
   \<and> fst (loadFavorites offline device0) = Fulfilled (Movies [])
   \<and> items (device_with ''not json'') ''@favorites'' = Some ''not json''
   \<and> JSON_parse offline ''not json'' = Inl SyntaxError
   \<and> fst (loadFavorites offline (device_with ''not json'')) = Fulfilled (Movies [])
   \<and> items (device_with '''') ''@favorites'' = Some ''''
   \<and> fst (loadFavorites offline (device_with '''')) = Fulfilled (Movies [])
   \<and> getItem_error (device_with json_movie7) = None
   \<and> items (device_with json_movie7) ''@favorites'' = Some json_movie7
   \<and> JSON_parse offline json_movie7 = Inr (Movies [movie7])
   \<and> fst (loadFavorites offline (device_with json_movie7)) = Fulfilled (Movies [movie7])"
proof -
  have p1: "JSON_parse offline ''not json'' = Inl SyntaxError"
    by (simp add: offline_def parse_fragment_def json_movie7_def)
  have p2: "JSON_parse offline json_movie7 = Inr (Movies [movie7])"
    by (simp add: offline_def parse_fragment_def json_movie7_def)
  have p3: "json_movie7 \<noteq> ''''"
    by (simp add: json_movie7_def)
  show ?thesis
    using p1 p2 p3
      loadFavorites_absent_or_unparsable
        [where d = device0 and P = offline and c = "''''" and e = SyntaxError
           and v = "Movies []"]
      loadFavorites_absent_or_unparsable
        [where d = "device_with ''not json''" and P = offline and c = "''not json''"
           and e = SyntaxError and v = "Movies []"]
      loadFavorites_absent_or_unparsable
        [where d = "device_with ''''" and P = offline and c = "''''" and e = SyntaxError
           and v = "Movies []"]
      loadFavorites_absent_or_unparsable
        [where d = "device_with json_movie7" and P = offline and c = json_movie7
           and e = SyntaxError and v = "Movies [movie7]"]
    by (simp add: device_with_def device0_def)
qed

text \<open>
  The claim as first stated, for every content that is not a movie list, fails on content
  that is JSON of another shape: the number \<^verbatim>\<open>42\<close> is parsed and returned as it is.
\<close>

theorem loadFavorites_returns_other_json:
  "items (device_with ''42'') ''@favorites'' = Some ''42''
   \<and> JSON_parse offline ''42'' = Inr (Other ''42'')
   \<and> fst (loadFavorites offline (device_with ''42'')) = Fulfilled (Other ''42'')
   \<and> fst (loadFavorites offline (device_with ''42'')) \<noteq> Fulfilled (Movies [])"
  by (simp add: loadFavorites_def loadFavorites_try_def AsyncStorage_getItem_def
      device_with_def device0_def offline_def parse_fragment_def json_movie7_def)


end
